theory Spec2Isabelle
  imports Complex_Main
begin

section \<open>Interval and funnel path construction (src/geometry/shape/interval/util.ts)\<close>

text \<open>
  The five functions of \<^verbatim>\<open>util.ts\<close> are embedded as HOL functions with the source's
  names. JavaScript numbers are modelled as exact reals, so the embedding has no
  rounding, no \<^verbatim>\<open>NaN\<close> and no infinities. Two things the source can do beyond
  returning a list of finite numbers are kept as values of the type \<open>error\<close>:
  \<^item> \<open>TypeError\<close>: the source reads a property of \<^verbatim>\<open>undefined\<close> (for instance
    \<^verbatim>\<open>points[2].x\<close> on a list with fewer than three points) and throws;
  \<^item> \<open>UndefinedNumber\<close>: the source throws nothing, but a number it puts into its
    result is \<^verbatim>\<open>undefined\<close>, or \<^verbatim>\<open>NaN\<close> obtained from arithmetic on
    \<^verbatim>\<open>undefined\<close> (an empty radius list, a \<^verbatim>\<open>ShapePoint\<close> without the field its
    branch reads). The embedding does not invent a real number for such a result.
  A division whose divisor is \<open>0\<close> is written with HOL's \<open>/\<close>, where the source
  yields an infinity or \<^verbatim>\<open>NaN\<close>; no branch of the source depends on such a value.
\<close>

subsection \<open>Data model\<close>

type_synonym num = real

datatype error = TypeError | UndefinedNumber

text \<open>
  Modelled from the spec: the interfaces \<^verbatim>\<open>Point\<close> and \<^verbatim>\<open>ShapePoint\<close>
  (\<^verbatim>\<open>src/interface\<close>), the type \<^verbatim>\<open>PathCommand\<close> (\<^verbatim>\<open>src/dependents\<close>) and the
  class \<^verbatim>\<open>Coordinate\<close> (\<^verbatim>\<open>@antv/coord\<close>) are imported by \<^verbatim>\<open>util.ts\<close> and are not
  among the sources; their fields are the ones \<^verbatim>\<open>util.ts\<close> reads. The fields
  \<^verbatim>\<open>x\<close>, \<^verbatim>\<open>y\<close> of a point are \<open>pt_x\<close>, \<open>pt_y\<close>; those of a \<^verbatim>\<open>ShapePoint\<close> are
  \<open>sp_x\<close>, \<open>sp_y\<close>, \<open>sp_y0\<close>, \<open>sp_size\<close>; \<^verbatim>\<open>coor.type\<close> is \<open>coorType\<close> and
  \<^verbatim>\<open>style.radius\<close> is \<open>style_radius\<close>.
\<close>

record Point =
  pt_x :: num
  pt_y :: num

text \<open>A value of type \<^verbatim>\<open>number | number[]\<close>, told apart by \<^verbatim>\<open>isArray\<close>.\<close>

datatype NumOrArr = Scalar num | Arr "num list"

record ShapePoint =
  sp_x :: NumOrArr
  sp_y :: NumOrArr
  sp_y0 :: "num option"
  sp_size :: "num option"

text \<open>
  A path command is the array \<^verbatim>\<open>['M', x, y]\<close>, \<^verbatim>\<open>['L', x, y]\<close>,
  \<^verbatim>\<open>['A', rx, ry, rotation, largeArc, sweep, x, y]\<close>, \<^verbatim>\<open>['z']\<close> or \<^verbatim>\<open>['Z']\<close>.
  The two spellings of the close command are kept apart.
\<close>

datatype PathCommand =
    Move num num
  | Line num num
  | Arc num num num num num num num
  | Close_z
  | Close_Z

record Coordinate =
  getWidth :: num
  getHeight :: num
  coorType :: string
  isTransposed :: bool
  convert :: "Point \<Rightarrow> Point"
  invertPoint :: "Point \<Rightarrow> Point"

text \<open>The \<^verbatim>\<open>radius\<close> of a style: \<^verbatim>\<open>number | number[]\<close>.\<close>

datatype RadiusSpec = RNum num | RArr "num list"

record Style =
  style_radius :: "RadiusSpec option"

subsection \<open>JavaScript reads\<close>

text \<open>\<^verbatim>\<open>xs[i]\<close>: the element, or \<^verbatim>\<open>undefined\<close> (\<open>None\<close>) past the end.\<close>

definition js_nth :: "'a list \<Rightarrow> nat \<Rightarrow> 'a option" where
  "js_nth xs i = (if i < length xs then Some (xs ! i) else None)"

text \<open>
  \<^verbatim>\<open>points[i].x\<close>: every read of an element of a point list in the source is followed
  by a property read, which throws when the element is \<^verbatim>\<open>undefined\<close>.
\<close>

definition point_at :: "Point list \<Rightarrow> nat \<Rightarrow> error + Point" where
  "point_at points i = (case js_nth points i of None \<Rightarrow> Inl TypeError | Some p \<Rightarrow> Inr p)"

definition bindE :: "error + 'a \<Rightarrow> ('a \<Rightarrow> error + 'b) \<Rightarrow> error + 'b" where
  "bindE m f = (case m of Inl e \<Rightarrow> Inl e | Inr v \<Rightarrow> f v)"

text \<open>A parameter with a default value: \<open>None\<close> is the omitted argument.\<close>

definition default_arg :: "'a option \<Rightarrow> 'a \<Rightarrow> 'a" where
  "default_arg a d = (case a of None \<Rightarrow> d | Some v \<Rightarrow> v)"

subsection \<open>parseRadius\<close>

text \<open>
  The four results are \<^verbatim>\<open>[r1, r2, r3, r4]\<close>. The last branch takes every list whose
  length is not 1, 2 or 3: of a longer list it reads the first four elements, of the
  empty list it reads four times \<^verbatim>\<open>undefined\<close>.
\<close>

definition parseRadius :: "RadiusSpec \<Rightarrow> num option list" where
  "parseRadius radius =
     (case radius of
        RArr a \<Rightarrow>
          (if length a = 1 then [js_nth a 0, js_nth a 0, js_nth a 0, js_nth a 0]
           else if length a = 2 then [js_nth a 0, js_nth a 1, js_nth a 0, js_nth a 1]
           else if length a = 3 then [js_nth a 0, js_nth a 1, js_nth a 2, js_nth a 1]
           else [js_nth a 0, js_nth a 1, js_nth a 2, js_nth a 3])
      | RNum v \<Rightarrow> [Some v, Some v, Some v, Some v])"

subsection \<open>getRectPoints\<close>

text \<open>Arithmetic with an operand that may be \<^verbatim>\<open>undefined\<close>: the result is then no number.\<close>

definition lift2 :: "(num \<Rightarrow> num \<Rightarrow> num) \<Rightarrow> num option \<Rightarrow> num option \<Rightarrow> num option" where
  "lift2 f a b = (case a of None \<Rightarrow> None | Some u \<Rightarrow> (case b of None \<Rightarrow> None | Some v \<Rightarrow> Some (f u v)))"

definition mk_point :: "num option \<Rightarrow> num option \<Rightarrow> Point option" where
  "mk_point a b = (case a of None \<Rightarrow> None | Some u \<Rightarrow>
     (case b of None \<Rightarrow> None | Some v \<Rightarrow> Some \<lparr>pt_x = u, pt_y = v\<rparr>))"

definition getRectPoints :: "ShapePoint \<Rightarrow> bool option \<Rightarrow> error + Point list" where
  "getRectPoints pointInfo isPyramid =
     (let (yMin, yMax) =
            (case sp_y pointInfo of
               Arr a \<Rightarrow> (js_nth a 0, js_nth a 1)
             | Scalar v \<Rightarrow> (sp_y0 pointInfo, Some v));
          (xMin, xMax) =
            (case sp_x pointInfo of
               Arr a \<Rightarrow> (js_nth a 0, js_nth a 1)
             | Scalar v \<Rightarrow>
                 (lift2 (\<lambda>c s. c - s / 2) (Some v) (sp_size pointInfo),
                  lift2 (\<lambda>c s. c + s / 2) (Some v) (sp_size pointInfo)));
          points = [mk_point xMin yMin, mk_point xMin yMax];
          points =
            (if default_arg isPyramid False
             then points @ [mk_point xMax (lift2 (\<lambda>u v. (u + v) / 2) yMax yMin)]
             else points @ [mk_point xMax yMax, mk_point xMax yMin])
      in case those points of None \<Rightarrow> Inl UndefinedNumber | Some ps \<Rightarrow> Inr ps)"

subsection \<open>getRectPath\<close>

text \<open>The \<^verbatim>\<open>for\<close> loop of \<^verbatim>\<open>getRectPath\<close>, from index \<open>i\<close>, pushing onto \<open>path\<close>.\<close>

function getRectPath_loop :: "Point list \<Rightarrow> nat \<Rightarrow> PathCommand list \<Rightarrow> PathCommand list" where
  "getRectPath_loop points i path =
     (if i < length points
      then getRectPath_loop points (i + 1)
             (path @ [Line (pt_x (points ! i)) (pt_y (points ! i))])
      else path)"
  by pat_completeness auto
termination
  by (relation "measure (\<lambda>(points, i, path). length points - i)") auto

declare getRectPath_loop.simps [simp del]

definition getRectPath :: "Point list \<Rightarrow> bool option \<Rightarrow> error + PathCommand list" where
  "getRectPath points isClosed =
     bindE (point_at points 0) (\<lambda>firstPoint.
       let path = [Move (pt_x firstPoint) (pt_y firstPoint)];
           path = getRectPath_loop points 1 path;
           path = (if default_arg isClosed True
                   then path @ [Line (pt_x firstPoint) (pt_y firstPoint), Close_z]
                   else path)
       in Inr path)"

subsection \<open>getIntervalRectPath\<close>

text \<open>
  The body of \<^verbatim>\<open>if (lineCap === 'round')\<close>, lines 134 to 147: the pill outline, inset
  by \<open>ry\<close> in a rectangular coordinate system.
\<close>

definition roundCapPath :: "Point list \<Rightarrow> bool \<Rightarrow> num \<Rightarrow> num \<Rightarrow> error + PathCommand list" where
  "roundCapPath points isRect r ry =
     bindE (point_at points 0) (\<lambda>p0.
     bindE (point_at points 1) (\<lambda>p1.
     bindE (point_at points 2) (\<lambda>p2.
     bindE (point_at points 3) (\<lambda>p3.
       let path =
             (if isRect
              then [Move (pt_x p0) (pt_y p0 + ry),
                    Line (pt_x p1) (pt_y p1 - ry),
                    Arc r r 0 0 1 (pt_x p2) (pt_y p2 - ry),
                    Line (pt_x p3) (pt_y p3 + ry),
                    Arc r r 0 0 1 (pt_x p0) (pt_y p0 + ry)]
              else [Move (pt_x p0) (pt_y p0),
                    Line (pt_x p1) (pt_y p1),
                    Arc r r 0 0 1 (pt_x p2) (pt_y p2),
                    Line (pt_x p3) (pt_y p3),
                    Arc r r 0 0 1 (pt_x p0) (pt_y p0)])
       in Inr (path @ [Close_z])))))"

text \<open>
  The body of \<^verbatim>\<open>path.forEach\<close>, lines 163 to 165: the last two entries of the command
  are replaced by the coordinates of their image under \<^verbatim>\<open>invertPoint\<close>. The loop runs
  before the close command is pushed, over move, line and arc commands only; a close
  command has no coordinate pair and is left as it is.
\<close>

fun invertTrailing :: "Coordinate \<Rightarrow> PathCommand \<Rightarrow> PathCommand" where
  "invertTrailing coor (Move x y) =
     (let inverted = invertPoint coor \<lparr>pt_x = x, pt_y = y\<rparr>
      in Move (pt_x inverted) (pt_y inverted))"
| "invertTrailing coor (Line x y) =
     (let inverted = invertPoint coor \<lparr>pt_x = x, pt_y = y\<rparr>
      in Line (pt_x inverted) (pt_y inverted))"
| "invertTrailing coor (Arc rx ry rot large sweep x y) =
     (let inverted = invertPoint coor \<lparr>pt_x = x, pt_y = y\<rparr>
      in Arc rx ry rot large sweep (pt_x inverted) (pt_y inverted))"
| "invertTrailing coor Close_z = Close_z"
| "invertTrailing coor Close_Z = Close_Z"

text \<open>
  The path of lines 152 to 160, in visual space: \<open>c0\<close> to \<open>c3\<close> are the converted key
  points, and an arc is pushed only for a radius that is not \<open>0\<close>.
\<close>

definition visualPath ::
  "Point \<Rightarrow> Point \<Rightarrow> Point \<Rightarrow> Point \<Rightarrow> num \<Rightarrow> num \<Rightarrow> num \<Rightarrow> num \<Rightarrow> PathCommand list" where
  "visualPath c0 c1 c2 c3 r1 r2 r3 r4 =
     [Move (pt_x c0) (pt_y c0 - r1)]
     @ [Line (pt_x c1) (pt_y c1 + r2)]
     @ (if r2 \<noteq> 0 then [Arc r2 r2 0 0 1 (pt_x c1 + r2) (pt_y c1)] else [])
     @ [Line (pt_x c2 - r3) (pt_y c2)]
     @ (if r3 \<noteq> 0 then [Arc r3 r3 0 0 1 (pt_x c2) (pt_y c2 + r3)] else [])
     @ [Line (pt_x c3) (pt_y c3 - r4)]
     @ (if r4 \<noteq> 0 then [Arc r4 r4 0 0 1 (pt_x c3 - r4) (pt_y c3)] else [])
     @ [Line (pt_x c0 + r1) (pt_y c0)]
     @ (if r1 \<noteq> 0 then [Arc r1 r1 0 0 1 (pt_x c0) (pt_y c0 - r1)] else [])"

text \<open>
  The body of \<^verbatim>\<open>else if (style?.radius)\<close>, lines 149 to 168. A missing point makes the
  source throw, whatever the radii are; with four points and a radius that is
  \<^verbatim>\<open>undefined\<close> (the empty radius list) the source returns commands holding
  \<^verbatim>\<open>undefined\<close> and \<^verbatim>\<open>NaN\<close>.
\<close>

definition radiusPath :: "Point list \<Rightarrow> Coordinate \<Rightarrow> RadiusSpec \<Rightarrow> error + PathCommand list" where
  "radiusPath points coor rad =
     (let radii = parseRadius rad;
          converted = map (convert coor) points
      in bindE (point_at converted 0) (\<lambda>c0.
         bindE (point_at converted 1) (\<lambda>c1.
         bindE (point_at converted 2) (\<lambda>c2.
         bindE (point_at converted 3) (\<lambda>c3.
           (case those radii of
              Some [r1, r2, r3, r4] \<Rightarrow>
                (let path = visualPath c0 c1 c2 c3 r1 r2 r3 r4;
                     path = map (invertTrailing coor) path
                 in Inr (path @ [Close_z]))
            | _ \<Rightarrow> Inl UndefinedNumber))))))"

text \<open>
  Truthiness of \<^verbatim>\<open>style?.radius\<close> when it is present: every array is truthy, the
  empty one too, and a number is truthy unless it is \<open>0\<close>.
\<close>

definition truthy :: "RadiusSpec \<Rightarrow> bool" where
  "truthy rad = (case rad of RNum n \<Rightarrow> n \<noteq> 0 | RArr a \<Rightarrow> True)"

text \<open>\<^verbatim>\<open>style?.radius\<close>: \<^verbatim>\<open>undefined\<close> when there is no style or the style has no radius.\<close>

definition opt_radius :: "Style option \<Rightarrow> RadiusSpec option" where
  "opt_radius style = (case style of None \<Rightarrow> None | Some s \<Rightarrow> style_radius s)"

text \<open>
  \<open>lineCap\<close> is the string passed, \<open>None\<close> when the caller passes \<^verbatim>\<open>undefined\<close>.
  \<open>r\<close> and \<open>ry\<close> are computed before the branches (lines 131 and 132), so a list with
  fewer than three points makes every call throw.
\<close>

definition getIntervalRectPath ::
  "Point list \<Rightarrow> string option \<Rightarrow> Coordinate \<Rightarrow> Style option \<Rightarrow> error + PathCommand list" where
  "getIntervalRectPath points lineCap coor style =
     (let width = getWidth coor;
          height = getHeight coor;
          isRect = (coorType coor = ''rect'')
      in bindE (point_at points 2) (\<lambda>p2.
         bindE (point_at points 1) (\<lambda>p1.
           let r = (pt_x p2 - pt_x p1) / 2;
               ry = (if isTransposed coor then (r * height) / width else (r * width) / height)
           in if lineCap = Some ''round'' then roundCapPath points isRect r ry
              else (case opt_radius style of
                      Some rad \<Rightarrow>
                        if truthy rad then radiusPath points coor rad
                        else getRectPath points None
                    | None \<Rightarrow> getRectPath points None))))"

subsection \<open>getFunnelPath\<close>

text \<open>\<open>nextPoints\<close> is \<open>None\<close> when \<^verbatim>\<open>isNil(nextPoints)\<close>.\<close>

definition getFunnelPath :: "Point list \<Rightarrow> Point list option \<Rightarrow> bool \<Rightarrow> error + PathCommand list" where
  "getFunnelPath points nextPoints isPyramid =
     (case nextPoints of
        Some nextPts \<Rightarrow>
          bindE (point_at points 0) (\<lambda>p0.
          bindE (point_at points 1) (\<lambda>p1.
          bindE (point_at nextPts 1) (\<lambda>n1.
          bindE (point_at nextPts 0) (\<lambda>n0.
            Inr [Move (pt_x p0) (pt_y p0),
                 Line (pt_x p1) (pt_y p1),
                 Line (pt_x n1) (pt_y n1),
                 Line (pt_x n0) (pt_y n0),
                 Close_Z]))))
      | None \<Rightarrow>
          if isPyramid
          then
            bindE (point_at points 0) (\<lambda>p0.
            bindE (point_at points 1) (\<lambda>p1.
            bindE (point_at points 2) (\<lambda>p2.
              Inr [Move (pt_x p0) (pt_y p0),
                   Line (pt_x p1) (pt_y p1),
                   Line (pt_x p2) (pt_y p2),
                   Line (pt_x p2) (pt_y p2),
                   Close_Z])))
          else
            bindE (point_at points 0) (\<lambda>p0.
            bindE (point_at points 1) (\<lambda>p1.
            bindE (point_at points 2) (\<lambda>p2.
            bindE (point_at points 3) (\<lambda>p3.
              Inr [Move (pt_x p0) (pt_y p0),
                   Line (pt_x p1) (pt_y p1),
                   Line (pt_x p2) (pt_y p2),
                   Line (pt_x p3) (pt_y p3),
                   Close_Z])))))"

subsection \<open>Reading a path\<close>

text \<open>The commands that move or draw a line to a point.\<close>

definition moveTo :: "Point \<Rightarrow> PathCommand" where
  "moveTo p = Move (pt_x p) (pt_y p)"

definition lineTo :: "Point \<Rightarrow> PathCommand" where
  "lineTo p = Line (pt_x p) (pt_y p)"

text \<open>The point a command ends at; a close command carries none.\<close>

fun endpoint :: "PathCommand \<Rightarrow> Point option" where
  "endpoint (Move x y) = Some \<lparr>pt_x = x, pt_y = y\<rparr>"
| "endpoint (Line x y) = Some \<lparr>pt_x = x, pt_y = y\<rparr>"
| "endpoint (Arc rx ry rot large sweep x y) = Some \<lparr>pt_x = x, pt_y = y\<rparr>"
| "endpoint Close_z = None"
| "endpoint Close_Z = None"

fun isArc :: "PathCommand \<Rightarrow> bool" where
  "isArc (Arc rx ry rot large sweep x y) = True"
| "isArc c = False"

text \<open>The radii and flags of an arc: \<open>[rx, ry, rotation, largeArc, sweep]\<close>.\<close>

fun arcShape :: "PathCommand \<Rightarrow> num list" where
  "arcShape (Arc rx ry rot large sweep x y) = [rx, ry, rot, large, sweep]"
| "arcShape c = []"

text \<open>The points a path visits, in order: the end points of its commands.\<close>

fun vertices :: "PathCommand list \<Rightarrow> Point list" where
  "vertices [] = []"
| "vertices (c # cs) = (case endpoint c of None \<Rightarrow> vertices cs | Some p \<Rightarrow> p # vertices cs)"

subsection \<open>Well-formed input\<close>

text \<open>
  Modelled from the spec: the source has no validation, and the well-formed input of
  sections 3 and 7 of the specification is written here as predicates. A radius is a
  number or a list of one to four numbers; a range has two elements; a scalar \<open>y\<close>
  comes with the baseline \<open>y0\<close> and a scalar \<open>x\<close> with \<open>size\<close>.
\<close>

definition wf_RadiusSpec :: "RadiusSpec \<Rightarrow> bool" where
  "wf_RadiusSpec rad = (case rad of RNum v \<Rightarrow> True | RArr a \<Rightarrow> 1 \<le> length a \<and> length a \<le> 4)"

definition wf_Style :: "Style option \<Rightarrow> bool" where
  "wf_Style style = (case opt_radius style of None \<Rightarrow> True | Some rad \<Rightarrow> wf_RadiusSpec rad)"

definition wf_ShapePoint :: "ShapePoint \<Rightarrow> bool" where
  "wf_ShapePoint sp =
     ((case sp_y sp of Arr a \<Rightarrow> length a = 2 | Scalar v \<Rightarrow> sp_y0 sp \<noteq> None)
      \<and> (case sp_x sp of Arr a \<Rightarrow> length a = 2 | Scalar v \<Rightarrow> sp_size sp \<noteq> None))"

definition wf_nextPoints :: "Point list option \<Rightarrow> bool" where
  "wf_nextPoints nextPoints = (case nextPoints of None \<Rightarrow> True | Some nextPts \<Rightarrow> length nextPts = 4)"

subsection \<open>Example inputs\<close>

text \<open>
  The bar of the specification's end-to-end scenario (\<open>x = 5\<close>, \<open>size = 2\<close>, \<open>y0 = 0\<close>,
  \<open>y = 10\<close>) and two coordinate systems of width and height 100: \<open>scaleCoord\<close> doubles
  both axes and its \<open>invertPoint\<close> halves them; \<open>lossyCoord\<close> doubles both axes and its
  \<open>invertPoint\<close> returns the visual point as it is.
\<close>

definition barPoints :: "Point list" where
  "barPoints = [\<lparr>pt_x = 4, pt_y = 0\<rparr>, \<lparr>pt_x = 4, pt_y = 10\<rparr>,
                \<lparr>pt_x = 6, pt_y = 10\<rparr>, \<lparr>pt_x = 6, pt_y = 0\<rparr>]"

definition scaleCoord :: Coordinate where
  "scaleCoord = \<lparr>getWidth = 100, getHeight = 100, coorType = ''rect'', isTransposed = False,
     convert = (\<lambda>p. \<lparr>pt_x = 2 * pt_x p, pt_y = 2 * pt_y p\<rparr>),
     invertPoint = (\<lambda>p. \<lparr>pt_x = pt_x p / 2, pt_y = pt_y p / 2\<rparr>)\<rparr>"

definition lossyCoord :: Coordinate where
  "lossyCoord = \<lparr>getWidth = 100, getHeight = 100, coorType = ''rect'', isTransposed = False,
     convert = (\<lambda>p. \<lparr>pt_x = 2 * pt_x p, pt_y = 2 * pt_y p\<rparr>),
     invertPoint = (\<lambda>p. p)\<rparr>"

section \<open>Properties\<close>

subsection \<open>Reads and sequencing\<close>

lemma point_at_in_range: "i < length points \<Longrightarrow> point_at points i = Inr (points ! i)"
  by (simp add: point_at_def js_nth_def)

lemma point_at_past_end: "length points \<le> i \<Longrightarrow> point_at points i = Inl TypeError"
  by (simp add: point_at_def js_nth_def)

lemma bindE_Inr: "bindE (Inr v) f = f v"
  by (simp add: bindE_def)

lemma bindE_Inl: "bindE (Inl e) f = Inl e"
  by (simp add: bindE_def)

subsection \<open>The radius normalizer\<close>

lemma parseRadius_length: "length (parseRadius radius) = 4"
  by (cases radius) (simp_all add: parseRadius_def)

text \<open>
  Claim C5. \<open>parseRadius\<close> returns four values on every input, also on a list of a
  length other than 1 to 4. A number \<open>v\<close> gives \<open>(v, v, v, v)\<close>, the list \<open>[a]\<close> gives
  \<open>(a, a, a, a)\<close>, \<open>[a, b]\<close> gives \<open>(a, b, a, b)\<close>, \<open>[a, b, c]\<close> gives \<open>(a, b, c, b)\<close>
  and \<open>[a, b, c, d]\<close> gives \<open>(a, b, c, d)\<close>; each of the four is a number.
\<close>

theorem parseRadius_cases:
  "length (parseRadius radius) = 4
   \<and> parseRadius (RNum v) = [Some v, Some v, Some v, Some v]
   \<and> parseRadius (RArr [a]) = [Some a, Some a, Some a, Some a]
   \<and> parseRadius (RArr [a, b]) = [Some a, Some b, Some a, Some b]
   \<and> parseRadius (RArr [a, b, c]) = [Some a, Some b, Some c, Some b]
   \<and> parseRadius (RArr [a, b, c, d]) = [Some a, Some b, Some c, Some d]"
  by (simp add: parseRadius_length) (simp add: parseRadius_def js_nth_def)

subsection \<open>The straight emitter\<close>

text \<open>The loop appends one line command for each point from index \<open>i\<close> on, in order.\<close>

lemma getRectPath_loop_eq:
  "getRectPath_loop points i path = path @ map lineTo (drop i points)"
proof (induction points i path rule: getRectPath_loop.induct)
  case (1 points i path)
  show ?case
  proof (cases "i < length points")
    case True
    then have "drop i points = points ! i # drop (Suc i) points"
      by (simp add: Cons_nth_drop_Suc)
    with True 1 show ?thesis
      by (subst getRectPath_loop.simps) (simp add: lineTo_def)
  next
    case False
    then show ?thesis
      by (subst getRectPath_loop.simps) simp
  qed
qed

lemma getRectPath_nonempty:
  "getRectPath (p # ps) isClosed =
     Inr (moveTo p # map lineTo ps
          @ (if default_arg isClosed True then [lineTo p, Close_z] else []))"
  by (simp add: getRectPath_def point_at_in_range bindE_Inr getRectPath_loop_eq
      moveTo_def lineTo_def)

lemma getRectPath_empty: "getRectPath [] isClosed = Inl TypeError"
  by (simp add: getRectPath_def point_at_past_end bindE_Inl)

text \<open>
  Claim C7. For a non-empty point list, \<open>getRectPath\<close> returns a move to the first
  point followed by a line to each later point in input order. With the closed flag
  set, which is its default, one more line back to the first point and a close
  command follow, and the path has \<open>n + 2\<close> commands; with the flag false nothing is
  appended, and the path has \<open>n\<close> commands.
\<close>

theorem getRectPath_spec:
  assumes "points \<noteq> []"
  shows "getRectPath points (Some False) = Inr (moveTo (hd points) # map lineTo (tl points))
    \<and> getRectPath points (Some True)
        = Inr (moveTo (hd points) # map lineTo (tl points) @ [lineTo (hd points), Close_z])
    \<and> getRectPath points None = getRectPath points (Some True)
    \<and> (\<exists>path. getRectPath points (Some True) = Inr path \<and> length path = length points + 2)
    \<and> (\<exists>path. getRectPath points (Some False) = Inr path \<and> length path = length points)"
proof -
  from assms obtain p ps where points: "points = p # ps"
    by (cases points) auto
  show ?thesis
    unfolding points by (simp add: getRectPath_nonempty default_arg_def)
qed

theorem getRectPath_spec_witness:
  "getRectPath [\<lparr>pt_x = 4, pt_y = 0\<rparr>, \<lparr>pt_x = 4, pt_y = 10\<rparr>, \<lparr>pt_x = 6, pt_y = 10\<rparr>] None
     = Inr [Move 4 0, Line 4 10, Line 6 10, Line 4 0, Close_z]
   \<and> getRectPath [\<lparr>pt_x = 4, pt_y = 0\<rparr>, \<lparr>pt_x = 4, pt_y = 10\<rparr>, \<lparr>pt_x = 6, pt_y = 10\<rparr>] (Some False)
     = Inr [Move 4 0, Line 4 10, Line 6 10]"
  using getRectPath_spec [of "[\<lparr>pt_x = 4, pt_y = 0\<rparr>, \<lparr>pt_x = 4, pt_y = 10\<rparr>, \<lparr>pt_x = 6, pt_y = 10\<rparr>]"]
  by (simp add: moveTo_def lineTo_def)


subsection \<open>The point deriver\<close>

text \<open>
  With both extents resolved to numbers, \<open>getRectPoints\<close> returns the outline in the
  source's order; a range may be longer than two, its first two elements are read.
\<close>

lemma getRectPoints_resolved:
  assumes y: "sp_y sp = Arr (yMin # yMax # yrest) \<or> (sp_y sp = Scalar yMax \<and> sp_y0 sp = Some yMin)"
    and x: "sp_x sp = Arr (xMin # xMax # xrest)
      \<or> (\<exists>c s. sp_x sp = Scalar c \<and> sp_size sp = Some s \<and> xMin = c - s / 2 \<and> xMax = c + s / 2)"
  shows "getRectPoints sp isPyramid =
    Inr (if default_arg isPyramid False
         then [\<lparr>pt_x = xMin, pt_y = yMin\<rparr>, \<lparr>pt_x = xMin, pt_y = yMax\<rparr>,
               \<lparr>pt_x = xMax, pt_y = (yMax + yMin) / 2\<rparr>]
         else [\<lparr>pt_x = xMin, pt_y = yMin\<rparr>, \<lparr>pt_x = xMin, pt_y = yMax\<rparr>,
               \<lparr>pt_x = xMax, pt_y = yMax\<rparr>, \<lparr>pt_x = xMax, pt_y = yMin\<rparr>])"
proof -
  have ys: "(case sp_y sp of Arr a \<Rightarrow> (js_nth a 0, js_nth a 1) | Scalar v \<Rightarrow> (sp_y0 sp, Some v))
      = (Some yMin, Some yMax)"
    using y by (auto simp: js_nth_def)
  have xs: "(case sp_x sp of Arr a \<Rightarrow> (js_nth a 0, js_nth a 1)
             | Scalar v \<Rightarrow> (lift2 (\<lambda>c s. c - s / 2) (Some v) (sp_size sp),
                             lift2 (\<lambda>c s. c + s / 2) (Some v) (sp_size sp)))
      = (Some xMin, Some xMax)"
    using x by (auto simp: js_nth_def lift2_def)
  show ?thesis
    unfolding getRectPoints_def ys xs
    by (simp add: mk_point_def lift2_def)
qed

text \<open>
  Claim C4. \<open>(yMin, yMax)\<close> are the two elements of \<open>y\<close> when \<open>y\<close> is a range and
  \<open>(y0, y)\<close> otherwise; \<open>(xMin, xMax)\<close> are the two elements of \<open>x\<close> when \<open>x\<close> is a range
  and \<open>(x - size/2, x + size/2)\<close> otherwise. In each of the four combinations the result
  is \<open>(xMin, yMin)\<close>, \<open>(xMin, yMax)\<close>, then the apex \<open>(xMax, (yMin + yMax)/2)\<close> for a
  pyramid and \<open>(xMax, yMax)\<close>, \<open>(xMax, yMin)\<close> otherwise (the default): three points for
  a pyramid, four otherwise, the first two with the x coordinate \<open>xMin\<close>.
\<close>

theorem getRectPoints_spec:
  assumes "sp_y sp = Arr [yMin, yMax] \<or> (sp_y sp = Scalar yMax \<and> sp_y0 sp = Some yMin)"
    and "sp_x sp = Arr [xMin, xMax]
      \<or> (\<exists>c s. sp_x sp = Scalar c \<and> sp_size sp = Some s \<and> xMin = c - s / 2 \<and> xMax = c + s / 2)"
  shows "getRectPoints sp (Some True) =
      Inr [\<lparr>pt_x = xMin, pt_y = yMin\<rparr>, \<lparr>pt_x = xMin, pt_y = yMax\<rparr>,
           \<lparr>pt_x = xMax, pt_y = (yMin + yMax) / 2\<rparr>]
    \<and> getRectPoints sp (Some False) =
      Inr [\<lparr>pt_x = xMin, pt_y = yMin\<rparr>, \<lparr>pt_x = xMin, pt_y = yMax\<rparr>,
           \<lparr>pt_x = xMax, pt_y = yMax\<rparr>, \<lparr>pt_x = xMax, pt_y = yMin\<rparr>]
    \<and> getRectPoints sp None = getRectPoints sp (Some False)
    \<and> (\<exists>ps. getRectPoints sp isPyramid = Inr ps
          \<and> length ps = (if default_arg isPyramid False then 3 else 4)
          \<and> pt_x (ps ! 0) = xMin \<and> pt_x (ps ! 1) = xMin)"
  using assms
  by (simp add: getRectPoints_resolved [where yrest = "[]" and xrest = "[]"] default_arg_def add.commute)

theorem getRectPoints_spec_witness:
  "getRectPoints \<lparr>sp_x = Scalar 5, sp_y = Scalar 10, sp_y0 = Some 0, sp_size = Some 2\<rparr> None
     = Inr [\<lparr>pt_x = 4, pt_y = 0\<rparr>, \<lparr>pt_x = 4, pt_y = 10\<rparr>, \<lparr>pt_x = 6, pt_y = 10\<rparr>, \<lparr>pt_x = 6, pt_y = 0\<rparr>]
   \<and> getRectPoints \<lparr>sp_x = Scalar 5, sp_y = Arr [2, 8], sp_y0 = None, sp_size = Some 2\<rparr> (Some True)
     = Inr [\<lparr>pt_x = 4, pt_y = 2\<rparr>, \<lparr>pt_x = 4, pt_y = 8\<rparr>, \<lparr>pt_x = 6, pt_y = 5\<rparr>]
   \<and> getRectPoints \<lparr>sp_x = Arr [1, 3], sp_y = Scalar 10, sp_y0 = Some 0, sp_size = None\<rparr> (Some False)
     = Inr [\<lparr>pt_x = 1, pt_y = 0\<rparr>, \<lparr>pt_x = 1, pt_y = 10\<rparr>, \<lparr>pt_x = 3, pt_y = 10\<rparr>, \<lparr>pt_x = 3, pt_y = 0\<rparr>]
   \<and> getRectPoints \<lparr>sp_x = Arr [1, 3], sp_y = Arr [2, 8], sp_y0 = None, sp_size = None\<rparr> (Some True)
     = Inr [\<lparr>pt_x = 1, pt_y = 2\<rparr>, \<lparr>pt_x = 1, pt_y = 8\<rparr>, \<lparr>pt_x = 3, pt_y = 5\<rparr>]"
  using
    getRectPoints_spec [of "\<lparr>sp_x = Scalar 5, sp_y = Scalar 10, sp_y0 = Some 0, sp_size = Some 2\<rparr>" 0 10 4 6 None]
    getRectPoints_spec [of "\<lparr>sp_x = Scalar 5, sp_y = Arr [2, 8], sp_y0 = None, sp_size = Some 2\<rparr>" 2 8 4 6 None]
    getRectPoints_spec [of "\<lparr>sp_x = Arr [1, 3], sp_y = Scalar 10, sp_y0 = Some 0, sp_size = None\<rparr>" 0 10 1 3 None]
    getRectPoints_spec [of "\<lparr>sp_x = Arr [1, 3], sp_y = Arr [2, 8], sp_y0 = None, sp_size = None\<rparr>" 2 8 1 3 None]
  by simp

subsection \<open>The funnel emitter\<close>

lemma getFunnelPath_next:
  assumes "2 \<le> length points" and "2 \<le> length nextPts"
  shows "getFunnelPath points (Some nextPts) isPyramid =
    Inr [moveTo (points ! 0), lineTo (points ! 1), lineTo (nextPts ! 1), lineTo (nextPts ! 0), Close_Z]"
proof -
  from assms have "points \<noteq> []" and "nextPts \<noteq> []"
    by auto
  with assms show ?thesis
    by (simp add: getFunnelPath_def point_at_in_range bindE_Inr moveTo_def lineTo_def)
qed

lemma getFunnelPath_pyramid:
  assumes "3 \<le> length points"
  shows "getFunnelPath points None True =
    Inr [moveTo (points ! 0), lineTo (points ! 1), lineTo (points ! 2), lineTo (points ! 2), Close_Z]"
proof -
  from assms have "points \<noteq> []"
    by auto
  with assms show ?thesis
    by (simp add: getFunnelPath_def point_at_in_range bindE_Inr moveTo_def lineTo_def)
qed

lemma getFunnelPath_last:
  assumes "4 \<le> length points"
  shows "getFunnelPath points None False =
    Inr [moveTo (points ! 0), lineTo (points ! 1), lineTo (points ! 2), lineTo (points ! 3), Close_Z]"
proof -
  from assms have "points \<noteq> []"
    by auto
  with assms show ?thesis
    by (simp add: getFunnelPath_def point_at_in_range bindE_Inr moveTo_def lineTo_def)
qed

text \<open>
  Claim C6. With a next-mark list, the path is the five commands move to
  \<open>points[0]\<close>, line to \<open>points[1]\<close>, line to \<open>nextPoints[1]\<close>, line to
  \<open>nextPoints[0]\<close>, close, whatever \<open>isPyramid\<close> is. Without one, a pyramid traces
  \<open>points[0]\<close>, \<open>points[1]\<close>, \<open>points[2]\<close>, \<open>points[2]\<close> and closes, and a plain funnel
  traces \<open>points[0]\<close> to \<open>points[3]\<close> and closes. Each branch is stated for lists that
  hold the points it reads.
\<close>

theorem getFunnelPath_spec:
  "(2 \<le> length points \<and> 2 \<le> length nextPts \<longrightarrow>
      getFunnelPath points (Some nextPts) isPyramid =
        Inr [moveTo (points ! 0), lineTo (points ! 1), lineTo (nextPts ! 1),
             lineTo (nextPts ! 0), Close_Z])
   \<and> (3 \<le> length points \<longrightarrow>
      getFunnelPath points None True =
        Inr [moveTo (points ! 0), lineTo (points ! 1), lineTo (points ! 2),
             lineTo (points ! 2), Close_Z])
   \<and> (4 \<le> length points \<longrightarrow>
      getFunnelPath points None False =
        Inr [moveTo (points ! 0), lineTo (points ! 1), lineTo (points ! 2),
             lineTo (points ! 3), Close_Z])"
  by (simp add: getFunnelPath_next getFunnelPath_pyramid getFunnelPath_last)

theorem getFunnelPath_spec_witness:
  "getFunnelPath
      [\<lparr>pt_x = 0, pt_y = 0\<rparr>, \<lparr>pt_x = 0, pt_y = 8\<rparr>, \<lparr>pt_x = 1, pt_y = 8\<rparr>, \<lparr>pt_x = 1, pt_y = 0\<rparr>]
      (Some [\<lparr>pt_x = 1, pt_y = 2\<rparr>, \<lparr>pt_x = 1, pt_y = 6\<rparr>, \<lparr>pt_x = 2, pt_y = 6\<rparr>, \<lparr>pt_x = 2, pt_y = 2\<rparr>])
      False
     = Inr [Move 0 0, Line 0 8, Line 1 6, Line 1 2, Close_Z]
   \<and> getFunnelPath [\<lparr>pt_x = 1, pt_y = 2\<rparr>, \<lparr>pt_x = 1, pt_y = 6\<rparr>, \<lparr>pt_x = 2, pt_y = 4\<rparr>] None True
     = Inr [Move 1 2, Line 1 6, Line 2 4, Line 2 4, Close_Z]
   \<and> getFunnelPath
      [\<lparr>pt_x = 1, pt_y = 2\<rparr>, \<lparr>pt_x = 1, pt_y = 6\<rparr>, \<lparr>pt_x = 2, pt_y = 6\<rparr>, \<lparr>pt_x = 2, pt_y = 2\<rparr>]
      None False
     = Inr [Move 1 2, Line 1 6, Line 2 6, Line 2 2, Close_Z]"
  using
    getFunnelPath_spec [of
      "[\<lparr>pt_x = 0, pt_y = 0\<rparr>, \<lparr>pt_x = 0, pt_y = 8\<rparr>, \<lparr>pt_x = 1, pt_y = 8\<rparr>, \<lparr>pt_x = 1, pt_y = 0\<rparr>]"
      "[\<lparr>pt_x = 1, pt_y = 2\<rparr>, \<lparr>pt_x = 1, pt_y = 6\<rparr>, \<lparr>pt_x = 2, pt_y = 6\<rparr>, \<lparr>pt_x = 2, pt_y = 2\<rparr>]"
      False]
    getFunnelPath_spec [of "[\<lparr>pt_x = 1, pt_y = 2\<rparr>, \<lparr>pt_x = 1, pt_y = 6\<rparr>, \<lparr>pt_x = 2, pt_y = 4\<rparr>]" "[]" True]
    getFunnelPath_spec [of
      "[\<lparr>pt_x = 1, pt_y = 2\<rparr>, \<lparr>pt_x = 1, pt_y = 6\<rparr>, \<lparr>pt_x = 2, pt_y = 6\<rparr>, \<lparr>pt_x = 2, pt_y = 2\<rparr>]"
      "[]" False]
  by (simp add: moveTo_def lineTo_def)

text \<open>
  Claim C10. With a next-mark list, the path depends on \<open>points[0]\<close>, \<open>points[1]\<close>,
  \<open>nextPoints[0]\<close> and \<open>nextPoints[1]\<close> only: two calls that agree on these four points
  return the same path, whatever the other elements, the lengths and the two
  \<open>isPyramid\<close> flags are.
\<close>

theorem getFunnelPath_next_depends_only_on_top_edges:
  assumes "2 \<le> length points" and "2 \<le> length points'"
    and "2 \<le> length nextPts" and "2 \<le> length nextPts'"
    and "points ! 0 = points' ! 0" and "points ! 1 = points' ! 1"
    and "nextPts ! 0 = nextPts' ! 0" and "nextPts ! 1 = nextPts' ! 1"
  shows "getFunnelPath points (Some nextPts) isPyramid = getFunnelPath points' (Some nextPts') isPyramid'
    \<and> getFunnelPath points (Some nextPts) True = getFunnelPath points (Some nextPts) False
    \<and> (\<exists>path. getFunnelPath points (Some nextPts) isPyramid = Inr path)"
  using assms by (simp add: getFunnelPath_next)

theorem getFunnelPath_next_depends_only_on_top_edges_witness:
  "getFunnelPath
      [\<lparr>pt_x = 0, pt_y = 0\<rparr>, \<lparr>pt_x = 0, pt_y = 8\<rparr>, \<lparr>pt_x = 1, pt_y = 8\<rparr>, \<lparr>pt_x = 1, pt_y = 0\<rparr>]
      (Some [\<lparr>pt_x = 1, pt_y = 2\<rparr>, \<lparr>pt_x = 1, pt_y = 6\<rparr>, \<lparr>pt_x = 2, pt_y = 6\<rparr>, \<lparr>pt_x = 2, pt_y = 2\<rparr>])
      False
   = getFunnelPath
      [\<lparr>pt_x = 0, pt_y = 0\<rparr>, \<lparr>pt_x = 0, pt_y = 8\<rparr>, \<lparr>pt_x = 7, pt_y = 7\<rparr>]
      (Some [\<lparr>pt_x = 1, pt_y = 2\<rparr>, \<lparr>pt_x = 1, pt_y = 6\<rparr>])
      True"
  using getFunnelPath_next_depends_only_on_top_edges [of
      "[\<lparr>pt_x = 0, pt_y = 0\<rparr>, \<lparr>pt_x = 0, pt_y = 8\<rparr>, \<lparr>pt_x = 1, pt_y = 8\<rparr>, \<lparr>pt_x = 1, pt_y = 0\<rparr>]"
      "[\<lparr>pt_x = 0, pt_y = 0\<rparr>, \<lparr>pt_x = 0, pt_y = 8\<rparr>, \<lparr>pt_x = 7, pt_y = 7\<rparr>]"
      "[\<lparr>pt_x = 1, pt_y = 2\<rparr>, \<lparr>pt_x = 1, pt_y = 6\<rparr>, \<lparr>pt_x = 2, pt_y = 6\<rparr>, \<lparr>pt_x = 2, pt_y = 2\<rparr>]"
      "[\<lparr>pt_x = 1, pt_y = 2\<rparr>, \<lparr>pt_x = 1, pt_y = 6\<rparr>]"
      False True]
  by simp

subsection \<open>The rounded emitter\<close>

lemma roundCapPath_four:
  "roundCapPath [p0, p1, p2, p3] isRect r ry =
     Inr (if isRect
          then [Move (pt_x p0) (pt_y p0 + ry), Line (pt_x p1) (pt_y p1 - ry),
                Arc r r 0 0 1 (pt_x p2) (pt_y p2 - ry), Line (pt_x p3) (pt_y p3 + ry),
                Arc r r 0 0 1 (pt_x p0) (pt_y p0 + ry), Close_z]
          else [Move (pt_x p0) (pt_y p0), Line (pt_x p1) (pt_y p1),
                Arc r r 0 0 1 (pt_x p2) (pt_y p2), Line (pt_x p3) (pt_y p3),
                Arc r r 0 0 1 (pt_x p0) (pt_y p0), Close_z])"
  by (simp add: roundCapPath_def point_at_in_range bindE_Inr)

text \<open>
  With at least three points the reads of lines 131 and 132 succeed, and the call is
  one of the three branches.
\<close>

lemma getIntervalRectPath_dispatch:
  assumes "3 \<le> length points"
  shows "getIntervalRectPath points lineCap coor style =
    (let r = (pt_x (points ! 2) - pt_x (points ! 1)) / 2;
         ry = (if isTransposed coor then (r * getHeight coor) / getWidth coor
               else (r * getWidth coor) / getHeight coor)
     in if lineCap = Some ''round'' then roundCapPath points (coorType coor = ''rect'') r ry
        else (case opt_radius style of
                Some rad \<Rightarrow> if truthy rad then radiusPath points coor rad
                            else getRectPath points None
              | None \<Rightarrow> getRectPath points None))"
  using assms
  by (simp add: getIntervalRectPath_def point_at_in_range bindE_Inr Let_def)

text \<open>With fewer than three points the read of line 131 throws, in every mode.\<close>

lemma getIntervalRectPath_too_short:
  assumes "length points < 3"
  shows "getIntervalRectPath points lineCap coor style = Inl TypeError"
  using assms
  by (simp add: getIntervalRectPath_def point_at_past_end bindE_Inl)

text \<open>
  Claim C1. For four points and the line cap \<open>round\<close>, with
  \<open>r = (points[2].x - points[1].x) / 2\<close> and \<open>ry = r * height / width\<close> in a transposed
  coordinate system, \<open>ry = r * width / height\<close> otherwise: a coordinate system of type
  \<open>rect\<close> gives move \<open>(p0.x, p0.y + ry)\<close>, line \<open>(p1.x, p1.y - ry)\<close>, arc to
  \<open>(p2.x, p2.y - ry)\<close>, line \<open>(p3.x, p3.y + ry)\<close>, arc to \<open>(p0.x, p0.y + ry)\<close>, close;
  any other type gives the same six commands without the offset. Both arcs have the
  radii \<open>r, r\<close>, rotation 0, large-arc flag 0 and sweep flag 1, and the path ends with
  the close command, whatever the style is.
\<close>

theorem getIntervalRectPath_round:
  "getIntervalRectPath [p0, p1, p2, p3] (Some ''round'') coor style =
    (let r = (pt_x p2 - pt_x p1) / 2;
         ry = (if isTransposed coor then r * getHeight coor / getWidth coor
               else r * getWidth coor / getHeight coor)
     in Inr (if coorType coor = ''rect''
             then [Move (pt_x p0) (pt_y p0 + ry), Line (pt_x p1) (pt_y p1 - ry),
                   Arc r r 0 0 1 (pt_x p2) (pt_y p2 - ry), Line (pt_x p3) (pt_y p3 + ry),
                   Arc r r 0 0 1 (pt_x p0) (pt_y p0 + ry), Close_z]
             else [Move (pt_x p0) (pt_y p0), Line (pt_x p1) (pt_y p1),
                   Arc r r 0 0 1 (pt_x p2) (pt_y p2), Line (pt_x p3) (pt_y p3),
                   Arc r r 0 0 1 (pt_x p0) (pt_y p0), Close_z]))
   \<and> (\<exists>path. getIntervalRectPath [p0, p1, p2, p3] (Some ''round'') coor style = Inr path
        \<and> length path = 6
        \<and> map arcShape (filter isArc path)
            = [[(pt_x p2 - pt_x p1) / 2, (pt_x p2 - pt_x p1) / 2, 0, 0, 1],
               [(pt_x p2 - pt_x p1) / 2, (pt_x p2 - pt_x p1) / 2, 0, 0, 1]]
        \<and> last path = Close_z)"
  by (simp add: getIntervalRectPath_dispatch roundCapPath_four Let_def)

theorem getIntervalRectPath_round_witness:
  "getIntervalRectPath barPoints (Some ''round'') scaleCoord None
     = Inr [Move 4 1, Line 4 9, Arc 1 1 0 0 1 6 9, Line 6 1, Arc 1 1 0 0 1 4 1, Close_z]
   \<and> getIntervalRectPath barPoints (Some ''round'') (scaleCoord\<lparr>coorType := ''polar''\<rparr>)
        (Some \<lparr>style_radius = Some (RNum 3)\<rparr>)
     = Inr [Move 4 0, Line 4 10, Arc 1 1 0 0 1 6 10, Line 6 0, Arc 1 1 0 0 1 4 0, Close_z]"
  using
    getIntervalRectPath_round [of "\<lparr>pt_x = 4, pt_y = 0\<rparr>" "\<lparr>pt_x = 4, pt_y = 10\<rparr>"
      "\<lparr>pt_x = 6, pt_y = 10\<rparr>" "\<lparr>pt_x = 6, pt_y = 0\<rparr>" scaleCoord None]
    getIntervalRectPath_round [of "\<lparr>pt_x = 4, pt_y = 0\<rparr>" "\<lparr>pt_x = 4, pt_y = 10\<rparr>"
      "\<lparr>pt_x = 6, pt_y = 10\<rparr>" "\<lparr>pt_x = 6, pt_y = 0\<rparr>" "scaleCoord\<lparr>coorType := ''polar''\<rparr>"
      "Some \<lparr>style_radius = Some (RNum 3)\<rparr>"]
  by (simp add: barPoints_def scaleCoord_def)

subsection \<open>The rounded emitter, one radius for each corner\<close>

lemma vertices_append: "vertices (xs @ ys) = vertices xs @ vertices ys"
  by (induction xs) (auto split: option.splits)

text \<open>With four points and four radii that are numbers, the branch returns the visual
  path with every trailing coordinate pair inverted, then the close command.\<close>

lemma radiusPath_four:
  assumes "parseRadius rad = [Some r1, Some r2, Some r3, Some r4]"
  shows "radiusPath [p0, p1, p2, p3] coor rad =
    Inr (map (invertTrailing coor)
           (visualPath (convert coor p0) (convert coor p1) (convert coor p2) (convert coor p3)
              r1 r2 r3 r4)
         @ [Close_z])"
  using assms
  by (simp add: radiusPath_def point_at_in_range bindE_Inr Let_def)

text \<open>
  The empty radius list is truthy and all its radii are \<^verbatim>\<open>undefined\<close>: the source
  returns commands without numbers.
\<close>

lemma radiusPath_empty_radius: "radiusPath [p0, p1, p2, p3] coor (RArr []) = Inl UndefinedNumber"
  by (simp add: radiusPath_def parseRadius_def js_nth_def point_at_in_range bindE_Inr)

text \<open>
  The arcs of the path, in the order they are pushed: one for each of \<open>r2\<close>, \<open>r3\<close>,
  \<open>r4\<close>, \<open>r1\<close> that is not \<open>0\<close>, each with both radii equal to that radius.
\<close>

lemma visualPath_arcs:
  "map arcShape (filter isArc (map (invertTrailing coor) (visualPath c0 c1 c2 c3 r1 r2 r3 r4)))
     = map (\<lambda>r. [r, r, 0, 0, 1]) (filter (\<lambda>r. r \<noteq> 0) [r2, r3, r4, r1])"
  by (simp add: visualPath_def Let_def)

lemma visualPath_length:
  "length (visualPath c0 c1 c2 c3 r1 r2 r3 r4) = 5 + length (filter (\<lambda>r. r \<noteq> 0) [r1, r2, r3, r4])"
  by (simp add: visualPath_def)

lemma visualPath_hd:
  "hd (map (invertTrailing coor) (visualPath c0 c1 c2 c3 r1 r2 r3 r4))
     = moveTo (invertPoint coor \<lparr>pt_x = pt_x c0, pt_y = pt_y c0 - r1\<rparr>)"
  by (simp add: visualPath_def Let_def moveTo_def)

lemma visualPath_last_vertex:
  "last (vertices (map (invertTrailing coor) (visualPath c0 c1 c2 c3 r1 r2 r3 r4)))
     = invertPoint coor \<lparr>pt_x = pt_x c0, pt_y = pt_y c0 - r1\<rparr>"
  by (cases "r1 = 0") (simp_all add: visualPath_def Let_def vertices_append)

lemma radius_branch_taken:
  assumes "3 \<le> length points" and "lineCap \<noteq> Some ''round''"
    and "opt_radius style = Some rad" and "truthy rad"
  shows "getIntervalRectPath points lineCap coor style = radiusPath points coor rad"
  using assms by (simp add: getIntervalRectPath_dispatch Let_def)

text \<open>
  Claim C2. For four points, a line cap other than \<open>round\<close> and a truthy radius whose
  four normalized radii are the numbers \<open>r1\<close> to \<open>r4\<close>, let \<open>c0\<close> to \<open>c3\<close> be the images
  of the four key points under \<open>convert\<close>. The result is, command by command: a move
  to \<open>(c0.x, c0.y - r1)\<close>, a line to \<open>(c1.x, c1.y + r2)\<close>, an arc to
  \<open>(c1.x + r2, c1.y)\<close> when \<open>r2\<close> is not \<open>0\<close>, a line to \<open>(c2.x - r3, c2.y)\<close>, an arc to
  \<open>(c2.x, c2.y + r3)\<close> when \<open>r3\<close> is not \<open>0\<close>, a line to \<open>(c3.x, c3.y - r4)\<close>, an arc to
  \<open>(c3.x - r4, c3.y)\<close> when \<open>r4\<close> is not \<open>0\<close>, a line to \<open>(c0.x + r1, c0.y)\<close>, an arc to
  \<open>(c0.x, c0.y - r1)\<close> when \<open>r1\<close> is not \<open>0\<close>, each of these visual points replaced by
  its image under \<open>invertPoint\<close>, and then the close command. Every arc has the radii
  \<open>ri, ri\<close>, rotation 0, large-arc flag 0 and sweep flag 1, and a radius \<open>0\<close> gives no
  arc. The path begins with a move to the inverted entry point of the bottom-left
  corner, the last point it visits is that same point, and it ends with the close
  command.
\<close>

theorem getIntervalRectPath_radius:
  assumes "lineCap \<noteq> Some ''round''"
    and "opt_radius style = Some rad" and "truthy rad"
    and "parseRadius rad = [Some r1, Some r2, Some r3, Some r4]"
  shows "getIntervalRectPath [p0, p1, p2, p3] lineCap coor style =
      (let c0 = convert coor p0; c1 = convert coor p1;
           c2 = convert coor p2; c3 = convert coor p3;
           e0 = invertPoint coor \<lparr>pt_x = pt_x c0, pt_y = pt_y c0 - r1\<rparr>;
           s1 = invertPoint coor \<lparr>pt_x = pt_x c1, pt_y = pt_y c1 + r2\<rparr>;
           e1 = invertPoint coor \<lparr>pt_x = pt_x c1 + r2, pt_y = pt_y c1\<rparr>;
           s2 = invertPoint coor \<lparr>pt_x = pt_x c2 - r3, pt_y = pt_y c2\<rparr>;
           e2 = invertPoint coor \<lparr>pt_x = pt_x c2, pt_y = pt_y c2 + r3\<rparr>;
           s3 = invertPoint coor \<lparr>pt_x = pt_x c3, pt_y = pt_y c3 - r4\<rparr>;
           e3 = invertPoint coor \<lparr>pt_x = pt_x c3 - r4, pt_y = pt_y c3\<rparr>;
           s0 = invertPoint coor \<lparr>pt_x = pt_x c0 + r1, pt_y = pt_y c0\<rparr>
       in Inr ([Move (pt_x e0) (pt_y e0), Line (pt_x s1) (pt_y s1)]
               @ (if r2 \<noteq> 0 then [Arc r2 r2 0 0 1 (pt_x e1) (pt_y e1)] else [])
               @ [Line (pt_x s2) (pt_y s2)]
               @ (if r3 \<noteq> 0 then [Arc r3 r3 0 0 1 (pt_x e2) (pt_y e2)] else [])
               @ [Line (pt_x s3) (pt_y s3)]
               @ (if r4 \<noteq> 0 then [Arc r4 r4 0 0 1 (pt_x e3) (pt_y e3)] else [])
               @ [Line (pt_x s0) (pt_y s0)]
               @ (if r1 \<noteq> 0 then [Arc r1 r1 0 0 1 (pt_x e0) (pt_y e0)] else [])
               @ [Close_z]))
    \<and> (\<exists>path.
      getIntervalRectPath [p0, p1, p2, p3] lineCap coor style = Inr path
    \<and> path = map (invertTrailing coor)
               (visualPath (convert coor p0) (convert coor p1) (convert coor p2) (convert coor p3)
                  r1 r2 r3 r4)
             @ [Close_z]
    \<and> map arcShape (filter isArc path)
        = map (\<lambda>r. [r, r, 0, 0, 1]) (filter (\<lambda>r. r \<noteq> 0) [r2, r3, r4, r1])
    \<and> length path = 6 + length (filter (\<lambda>r. r \<noteq> 0) [r1, r2, r3, r4])
    \<and> hd path
        = moveTo (invertPoint coor
            \<lparr>pt_x = pt_x (convert coor p0), pt_y = pt_y (convert coor p0) - r1\<rparr>)
    \<and> last (vertices path)
        = invertPoint coor \<lparr>pt_x = pt_x (convert coor p0), pt_y = pt_y (convert coor p0) - r1\<rparr>
    \<and> last path = Close_z)"
proof -
  let ?visual = "visualPath (convert coor p0) (convert coor p1) (convert coor p2)
    (convert coor p3) r1 r2 r3 r4"
  let ?inverted = "map (invertTrailing coor) ?visual"
  have nonempty: "?inverted \<noteq> []"
    by (simp add: visualPath_def)
  have call: "getIntervalRectPath [p0, p1, p2, p3] lineCap coor style = Inr (?inverted @ [Close_z])"
    using assms by (simp add: radius_branch_taken radiusPath_four)
  have arcs: "map arcShape (filter isArc (?inverted @ [Close_z]))
      = map (\<lambda>r. [r, r, 0, 0, 1]) (filter (\<lambda>r. r \<noteq> 0) [r2, r3, r4, r1])"
    using visualPath_arcs [of coor "convert coor p0" "convert coor p1" "convert coor p2"
        "convert coor p3" r1 r2 r3 r4]
    by simp
  have len: "length (?inverted @ [Close_z]) = 6 + length (filter (\<lambda>r. r \<noteq> 0) [r1, r2, r3, r4])"
    using visualPath_length [of "convert coor p0" "convert coor p1" "convert coor p2"
        "convert coor p3" r1 r2 r3 r4]
    by simp
  have first: "hd (?inverted @ [Close_z])
      = moveTo (invertPoint coor
          \<lparr>pt_x = pt_x (convert coor p0), pt_y = pt_y (convert coor p0) - r1\<rparr>)"
    using nonempty visualPath_hd [of coor "convert coor p0" "convert coor p1" "convert coor p2"
        "convert coor p3" r1 r2 r3 r4]
    by simp
  have closes: "last (vertices (?inverted @ [Close_z]))
      = invertPoint coor \<lparr>pt_x = pt_x (convert coor p0), pt_y = pt_y (convert coor p0) - r1\<rparr>"
    using visualPath_last_vertex [of coor "convert coor p0" "convert coor p1" "convert coor p2"
        "convert coor p3" r1 r2 r3 r4]
    by (simp add: vertices_append)
  have commands: "?inverted =
      (let c0 = convert coor p0; c1 = convert coor p1;
           c2 = convert coor p2; c3 = convert coor p3;
           e0 = invertPoint coor \<lparr>pt_x = pt_x c0, pt_y = pt_y c0 - r1\<rparr>;
           s1 = invertPoint coor \<lparr>pt_x = pt_x c1, pt_y = pt_y c1 + r2\<rparr>;
           e1 = invertPoint coor \<lparr>pt_x = pt_x c1 + r2, pt_y = pt_y c1\<rparr>;
           s2 = invertPoint coor \<lparr>pt_x = pt_x c2 - r3, pt_y = pt_y c2\<rparr>;
           e2 = invertPoint coor \<lparr>pt_x = pt_x c2, pt_y = pt_y c2 + r3\<rparr>;
           s3 = invertPoint coor \<lparr>pt_x = pt_x c3, pt_y = pt_y c3 - r4\<rparr>;
           e3 = invertPoint coor \<lparr>pt_x = pt_x c3 - r4, pt_y = pt_y c3\<rparr>;
           s0 = invertPoint coor \<lparr>pt_x = pt_x c0 + r1, pt_y = pt_y c0\<rparr>
       in [Move (pt_x e0) (pt_y e0), Line (pt_x s1) (pt_y s1)]
          @ (if r2 \<noteq> 0 then [Arc r2 r2 0 0 1 (pt_x e1) (pt_y e1)] else [])
          @ [Line (pt_x s2) (pt_y s2)]
          @ (if r3 \<noteq> 0 then [Arc r3 r3 0 0 1 (pt_x e2) (pt_y e2)] else [])
          @ [Line (pt_x s3) (pt_y s3)]
          @ (if r4 \<noteq> 0 then [Arc r4 r4 0 0 1 (pt_x e3) (pt_y e3)] else [])
          @ [Line (pt_x s0) (pt_y s0)]
          @ (if r1 \<noteq> 0 then [Arc r1 r1 0 0 1 (pt_x e0) (pt_y e0)] else []))"
    by (simp add: visualPath_def Let_def)
  have closed_form: "getIntervalRectPath [p0, p1, p2, p3] lineCap coor style =
      (let c0 = convert coor p0; c1 = convert coor p1;
           c2 = convert coor p2; c3 = convert coor p3;
           e0 = invertPoint coor \<lparr>pt_x = pt_x c0, pt_y = pt_y c0 - r1\<rparr>;
           s1 = invertPoint coor \<lparr>pt_x = pt_x c1, pt_y = pt_y c1 + r2\<rparr>;
           e1 = invertPoint coor \<lparr>pt_x = pt_x c1 + r2, pt_y = pt_y c1\<rparr>;
           s2 = invertPoint coor \<lparr>pt_x = pt_x c2 - r3, pt_y = pt_y c2\<rparr>;
           e2 = invertPoint coor \<lparr>pt_x = pt_x c2, pt_y = pt_y c2 + r3\<rparr>;
           s3 = invertPoint coor \<lparr>pt_x = pt_x c3, pt_y = pt_y c3 - r4\<rparr>;
           e3 = invertPoint coor \<lparr>pt_x = pt_x c3 - r4, pt_y = pt_y c3\<rparr>;
           s0 = invertPoint coor \<lparr>pt_x = pt_x c0 + r1, pt_y = pt_y c0\<rparr>
       in Inr ([Move (pt_x e0) (pt_y e0), Line (pt_x s1) (pt_y s1)]
               @ (if r2 \<noteq> 0 then [Arc r2 r2 0 0 1 (pt_x e1) (pt_y e1)] else [])
               @ [Line (pt_x s2) (pt_y s2)]
               @ (if r3 \<noteq> 0 then [Arc r3 r3 0 0 1 (pt_x e2) (pt_y e2)] else [])
               @ [Line (pt_x s3) (pt_y s3)]
               @ (if r4 \<noteq> 0 then [Arc r4 r4 0 0 1 (pt_x e3) (pt_y e3)] else [])
               @ [Line (pt_x s0) (pt_y s0)]
               @ (if r1 \<noteq> 0 then [Arc r1 r1 0 0 1 (pt_x e0) (pt_y e0)] else [])
               @ [Close_z]))"
    unfolding call commands by (simp add: Let_def)
  from call arcs len first closes have "\<exists>path.
      getIntervalRectPath [p0, p1, p2, p3] lineCap coor style = Inr path
    \<and> path = ?inverted @ [Close_z]
    \<and> map arcShape (filter isArc path)
        = map (\<lambda>r. [r, r, 0, 0, 1]) (filter (\<lambda>r. r \<noteq> 0) [r2, r3, r4, r1])
    \<and> length path = 6 + length (filter (\<lambda>r. r \<noteq> 0) [r1, r2, r3, r4])
    \<and> hd path
        = moveTo (invertPoint coor
            \<lparr>pt_x = pt_x (convert coor p0), pt_y = pt_y (convert coor p0) - r1\<rparr>)
    \<and> last (vertices path)
        = invertPoint coor \<lparr>pt_x = pt_x (convert coor p0), pt_y = pt_y (convert coor p0) - r1\<rparr>
    \<and> last path = Close_z"
    by simp
  with closed_form show ?thesis
    by (rule conjI)
qed

theorem getIntervalRectPath_radius_witness:
  "getIntervalRectPath barPoints None scaleCoord (Some \<lparr>style_radius = Some (RArr [1, 0])\<rparr>)
     = Inr [Move 4 (- (1 / 2)), Line 4 10, Line (11 / 2) 10, Arc 1 1 0 0 1 6 (21 / 2),
            Line 6 0, Line (9 / 2) 0, Arc 1 1 0 0 1 4 (- (1 / 2)), Close_z]"
  using getIntervalRectPath_radius [of None "Some \<lparr>style_radius = Some (RArr [1, 0])\<rparr>"
      "RArr [1, 0]" 1 0 1 0
      "\<lparr>pt_x = 4, pt_y = 0\<rparr>" "\<lparr>pt_x = 4, pt_y = 10\<rparr>" "\<lparr>pt_x = 6, pt_y = 10\<rparr>"
      "\<lparr>pt_x = 6, pt_y = 0\<rparr>" scaleCoord]
  by (simp add: barPoints_def scaleCoord_def opt_radius_def truthy_def parseRadius_def
      js_nth_def visualPath_def)

subsection \<open>The rounded emitter against the straight emitter\<close>

lemma getRectPath_four:
  "getRectPath [p0, p1, p2, p3] isClosed =
     Inr ([moveTo p0, lineTo p1, lineTo p2, lineTo p3]
          @ (if default_arg isClosed True then [lineTo p0, Close_z] else []))"
  by (simp add: getRectPath_nonempty)

text \<open>
  Claim C8. When \<open>invertPoint\<close> is a left inverse of \<open>convert\<close>, the line cap is not
  \<open>round\<close> and the four normalized radii of a truthy radius are all \<open>0\<close>, the result for
  four points is the path the straight emitter returns for them with the closed flag
  set: it has no arc, it visits \<open>p0, p1, p2, p3, p0\<close>, whose images in visual space are
  the converted corners bottom-left, top-left, top-right, bottom-right, bottom-left,
  and it ends with the close command.
\<close>

theorem getIntervalRectPath_zero_radii:
  assumes "\<forall>p. invertPoint coor (convert coor p) = p"
    and "lineCap \<noteq> Some ''round''"
    and "opt_radius style = Some rad" and "truthy rad"
    and "parseRadius rad = [Some 0, Some 0, Some 0, Some 0]"
  shows "getIntervalRectPath [p0, p1, p2, p3] lineCap coor style
      = getRectPath [p0, p1, p2, p3] (Some True)
    \<and> (\<exists>path. getIntervalRectPath [p0, p1, p2, p3] lineCap coor style = Inr path
          \<and> filter isArc path = []
          \<and> map (convert coor) (vertices path)
              = [convert coor p0, convert coor p1, convert coor p2, convert coor p3,
                 convert coor p0]
          \<and> vertices path = [p0, p1, p2, p3, p0]
          \<and> last path = Close_z)"
proof -
  have eta: "\<lparr>pt_x = pt_x q, pt_y = pt_y q\<rparr> = q" for q :: Point
    by (cases q) simp
  have inv: "invertPoint coor \<lparr>pt_x = pt_x (convert coor p), pt_y = pt_y (convert coor p)\<rparr> = p" for p
    using assms(1) by (simp add: eta)
  have call: "getIntervalRectPath [p0, p1, p2, p3] lineCap coor style
      = Inr [moveTo p0, lineTo p1, lineTo p2, lineTo p3, lineTo p0, Close_z]"
    using assms(2-5)
    by (simp add: radius_branch_taken radiusPath_four visualPath_def inv
        moveTo_def lineTo_def)
  show ?thesis
    unfolding call by (simp add: getRectPath_four default_arg_def moveTo_def lineTo_def eta)
qed

theorem getIntervalRectPath_zero_radii_witness:
  "(\<forall>p. invertPoint scaleCoord (convert scaleCoord p) = p)
   \<and> getIntervalRectPath barPoints None scaleCoord (Some \<lparr>style_radius = Some (RArr [0])\<rparr>)
     = Inr [Move 4 0, Line 4 10, Line 6 10, Line 6 0, Line 4 0, Close_z]
   \<and> getRectPath barPoints (Some True)
     = Inr [Move 4 0, Line 4 10, Line 6 10, Line 6 0, Line 4 0, Close_z]"
proof -
  have inverse: "\<forall>p. invertPoint scaleCoord (convert scaleCoord p) = p"
    by (simp add: scaleCoord_def)
  have radii: "parseRadius (RArr [0]) = [Some 0, Some 0, Some 0, Some 0]"
    by (simp add: parseRadius_def js_nth_def)
  have "getIntervalRectPath barPoints None scaleCoord (Some \<lparr>style_radius = Some (RArr [0])\<rparr>)
      = getRectPath barPoints (Some True)"
    using getIntervalRectPath_zero_radii [OF inverse _ _ _ radii,
        of None "Some \<lparr>style_radius = Some (RArr [0])\<rparr>"
        "\<lparr>pt_x = 4, pt_y = 0\<rparr>" "\<lparr>pt_x = 4, pt_y = 10\<rparr>" "\<lparr>pt_x = 6, pt_y = 10\<rparr>"
        "\<lparr>pt_x = 6, pt_y = 0\<rparr>"]
    by (simp add: barPoints_def opt_radius_def truthy_def)
  moreover have "getRectPath barPoints (Some True)
      = Inr [Move 4 0, Line 4 10, Line 6 10, Line 6 0, Line 4 0, Close_z]"
    by (simp add: barPoints_def getRectPath_four default_arg_def moveTo_def lineTo_def)
  ultimately show ?thesis
    using inverse by simp
qed

subsection \<open>The three modes\<close>

text \<open>
  Claim C3 as stated fails for a style whose radius is the number \<open>0\<close>: the style
  specifies a radius, the line cap is not \<open>round\<close>, and the source tests
  \<^verbatim>\<open>style?.radius\<close> for truthiness, so the call returns the straight path of the
  four points. In the coordinate system \<open>lossyCoord\<close> the per-corner branch returns
  another path for the same points and radius.
\<close>

theorem getIntervalRectPath_zero_number_counterexample:
  "opt_radius (Some \<lparr>style_radius = Some (RNum 0)\<rparr>) = Some (RNum 0)
   \<and> getIntervalRectPath barPoints None lossyCoord (Some \<lparr>style_radius = Some (RNum 0)\<rparr>)
     = Inr [Move 4 0, Line 4 10, Line 6 10, Line 6 0, Line 4 0, Close_z]
   \<and> getRectPath barPoints (Some True)
     = Inr [Move 4 0, Line 4 10, Line 6 10, Line 6 0, Line 4 0, Close_z]
   \<and> radiusPath barPoints lossyCoord (RNum 0)
     = Inr [Move 8 0, Line 8 20, Line 12 20, Line 12 0, Line 8 0, Close_z]
   \<and> getIntervalRectPath barPoints None lossyCoord (Some \<lparr>style_radius = Some (RNum 0)\<rparr>)
     \<noteq> radiusPath barPoints lossyCoord (RNum 0)"
proof -
  have radii: "parseRadius (RNum 0) = [Some 0, Some 0, Some 0, Some 0]"
    by (simp add: parseRadius_def)
  have straight: "getRectPath barPoints isClosed
      = Inr ([Move 4 0, Line 4 10, Line 6 10, Line 6 0]
             @ (if default_arg isClosed True then [Line 4 0, Close_z] else []))" for isClosed
    by (simp add: barPoints_def getRectPath_four moveTo_def lineTo_def)
  have call: "getIntervalRectPath barPoints None lossyCoord (Some \<lparr>style_radius = Some (RNum 0)\<rparr>)
      = getRectPath barPoints None"
    by (simp add: getIntervalRectPath_dispatch barPoints_def opt_radius_def truthy_def Let_def)
  have rounded: "radiusPath barPoints lossyCoord (RNum 0)
      = Inr [Move 8 0, Line 8 20, Line 12 20, Line 12 0, Line 8 0, Close_z]"
    unfolding barPoints_def
    by (simp add: radiusPath_four [OF radii] visualPath_def lossyCoord_def)
  show ?thesis
    unfolding call rounded straight by (simp add: opt_radius_def default_arg_def)
qed

text \<open>
  Claim C3, amended. For at least three points, exactly one of three modes applies, in
  this order: the line cap \<open>round\<close> gives the round-cap path, whatever the style is;
  otherwise a truthy radius of the style (a list, or a number other than \<open>0\<close>) gives
  the per-corner path; otherwise (no style, no radius, or the number \<open>0\<close>) the result
  is that of the straight emitter on the same points with the closed flag set.
\<close>

theorem getIntervalRectPath_modes:
  assumes "3 \<le> length points"
  shows "getIntervalRectPath points lineCap coor style =
    (let r = (pt_x (points ! 2) - pt_x (points ! 1)) / 2;
         ry = (if isTransposed coor then r * getHeight coor / getWidth coor
               else r * getWidth coor / getHeight coor)
     in if lineCap = Some ''round'' then roundCapPath points (coorType coor = ''rect'') r ry
        else (case opt_radius style of
                None \<Rightarrow> getRectPath points (Some True)
              | Some (RNum n) \<Rightarrow>
                  if n = 0 then getRectPath points (Some True)
                  else radiusPath points coor (RNum n)
              | Some (RArr a) \<Rightarrow> radiusPath points coor (RArr a)))"
proof -
  have closed: "getRectPath points None = getRectPath points (Some True)"
    by (simp add: getRectPath_def default_arg_def)
  show ?thesis
    using assms
    by (simp add: getIntervalRectPath_dispatch closed truthy_def Let_def
        split: option.splits RadiusSpec.splits)
qed

theorem getIntervalRectPath_modes_witness:
  "getIntervalRectPath barPoints (Some ''round'') scaleCoord (Some \<lparr>style_radius = Some (RNum 1)\<rparr>)
     = roundCapPath barPoints True 1 1
   \<and> getIntervalRectPath barPoints None scaleCoord (Some \<lparr>style_radius = Some (RNum 1)\<rparr>)
     = radiusPath barPoints scaleCoord (RNum 1)
   \<and> getIntervalRectPath barPoints None scaleCoord (Some \<lparr>style_radius = Some (RNum 0)\<rparr>)
     = getRectPath barPoints (Some True)
   \<and> getIntervalRectPath barPoints None scaleCoord None = getRectPath barPoints (Some True)"
  using
    getIntervalRectPath_modes [of barPoints "Some ''round''" scaleCoord
      "Some \<lparr>style_radius = Some (RNum 1)\<rparr>"]
    getIntervalRectPath_modes [of barPoints None scaleCoord "Some \<lparr>style_radius = Some (RNum 1)\<rparr>"]
    getIntervalRectPath_modes [of barPoints None scaleCoord "Some \<lparr>style_radius = Some (RNum 0)\<rparr>"]
    getIntervalRectPath_modes [of barPoints None scaleCoord None]
  by (simp add: barPoints_def scaleCoord_def opt_radius_def)

subsection \<open>Well-formed input returns normally\<close>

lemma length_four:
  assumes "length xs = 4"
  obtains a b c d where "xs = [a, b, c, d]"
proof -
  from assms obtain a b c d where "xs = [a, b, c, d]"
    by (auto simp: length_Suc_conv numeral_eq_Suc)
  then show thesis
    by (rule that)
qed

lemma parseRadius_defined:
  assumes "wf_RadiusSpec rad"
  shows "\<exists>r1 r2 r3 r4. parseRadius rad = [Some r1, Some r2, Some r3, Some r4]"
proof (cases rad)
  case (RNum v)
  then show ?thesis
    by (simp add: parseRadius_def)
next
  case (RArr a)
  with assms have "length a = 1 \<or> length a = 2 \<or> length a = 3 \<or> length a = 4"
    by (auto simp: wf_RadiusSpec_def)
  with RArr show ?thesis
    by (auto simp: parseRadius_def js_nth_def)
qed

lemma getRectPoints_defined:
  assumes "wf_ShapePoint sp"
  shows "\<exists>ps. getRectPoints sp isPyramid = Inr ps"
proof -
  from assms obtain yMin yMax
    where y: "sp_y sp = Arr [yMin, yMax] \<or> (sp_y sp = Scalar yMax \<and> sp_y0 sp = Some yMin)"
    by (cases "sp_y sp")
      (auto simp: wf_ShapePoint_def length_Suc_conv numeral_eq_Suc)
  from assms obtain xMin xMax
    where x: "sp_x sp = Arr [xMin, xMax]
      \<or> (\<exists>c s. sp_x sp = Scalar c \<and> sp_size sp = Some s \<and> xMin = c - s / 2 \<and> xMax = c + s / 2)"
    by (cases "sp_x sp")
      (auto simp: wf_ShapePoint_def length_Suc_conv numeral_eq_Suc)
  from getRectPoints_resolved [OF y x] show ?thesis
    by simp
qed

lemma getIntervalRectPath_defined:
  assumes "length points = 4" and "wf_Style style"
  shows "\<exists>path. getIntervalRectPath points lineCap coor style = Inr path"
proof -
  from assms(1) obtain p0 p1 p2 p3 where points: "points = [p0, p1, p2, p3]"
    by (rule length_four)
  show ?thesis
  proof (cases "lineCap = Some ''round''")
    case True
    then show ?thesis
      unfolding points by (simp add: getIntervalRectPath_dispatch roundCapPath_four Let_def)
  next
    case notRound: False
    show ?thesis
    proof (cases "opt_radius style")
      case None
      with notRound show ?thesis
        unfolding points by (simp add: getIntervalRectPath_dispatch getRectPath_four Let_def)
    next
      case (Some rad)
      with assms(2) have "wf_RadiusSpec rad"
        by (simp add: wf_Style_def)
      then obtain r1 r2 r3 r4 where "parseRadius rad = [Some r1, Some r2, Some r3, Some r4]"
        using parseRadius_defined by blast
      with notRound Some show ?thesis
        unfolding points
        by (simp add: getIntervalRectPath_dispatch getRectPath_four radiusPath_four Let_def)
    qed
  qed
qed

lemma getFunnelPath_defined:
  assumes "length points = 4" and "wf_nextPoints nextPoints"
  shows "\<exists>path. getFunnelPath points nextPoints isPyramid = Inr path"
proof (cases nextPoints)
  case None
  with assms(1) show ?thesis
    by (cases isPyramid) (simp_all add: getFunnelPath_pyramid getFunnelPath_last)
next
  case (Some nextPts)
  with assms show ?thesis
    by (simp add: wf_nextPoints_def getFunnelPath_next)
qed

text \<open>
  Claim C9. On well-formed input every operation returns a value: no \<open>TypeError\<close> is
  thrown and no read past the end of a list puts \<^verbatim>\<open>undefined\<close> into a result.
  \<open>parseRadius\<close> gives four numbers for a number or a list of one to four numbers,
  \<open>getRectPoints\<close> gives points for a \<open>ShapePoint\<close> that carries the field its branches
  read, \<open>getRectPath\<close> gives a path for a non-empty list, and \<open>getIntervalRectPath\<close> and
  \<open>getFunnelPath\<close> give a path for four points (and a well-formed style, or next-mark
  list of four points when there is one).
\<close>

theorem total_on_well_formed_input:
  "(wf_RadiusSpec rad \<longrightarrow>
      (\<exists>r1 r2 r3 r4. parseRadius rad = [Some r1, Some r2, Some r3, Some r4]))
   \<and> (wf_ShapePoint sp \<longrightarrow> (\<exists>ps. getRectPoints sp isPyramid = Inr ps))
   \<and> (points \<noteq> [] \<longrightarrow> (\<exists>path. getRectPath points isClosed = Inr path))
   \<and> (length points = 4 \<and> wf_Style style \<longrightarrow>
        (\<exists>path. getIntervalRectPath points lineCap coor style = Inr path))
   \<and> (length points = 4 \<and> wf_nextPoints nextPoints \<longrightarrow>
        (\<exists>path. getFunnelPath points nextPoints pyramid = Inr path))"
proof -
  have "\<exists>path. getRectPath points isClosed = Inr path" if "points \<noteq> []"
    using that by (cases points) (simp_all add: getRectPath_nonempty)
  then show ?thesis
    using parseRadius_defined getRectPoints_defined getIntervalRectPath_defined
      getFunnelPath_defined
    by blast
qed

theorem total_on_well_formed_input_witness:
  "wf_RadiusSpec (RArr [3, 1, 2]) \<and> parseRadius (RArr [3, 1, 2]) = [Some 3, Some 1, Some 2, Some 1]
   \<and> wf_ShapePoint \<lparr>sp_x = Scalar 5, sp_y = Scalar 10, sp_y0 = Some 0, sp_size = Some 2\<rparr>
   \<and> getRectPoints \<lparr>sp_x = Scalar 5, sp_y = Scalar 10, sp_y0 = Some 0, sp_size = Some 2\<rparr> None
       = Inr barPoints
   \<and> (\<exists>path. getRectPath barPoints None = Inr path)
   \<and> wf_Style (Some \<lparr>style_radius = Some (RArr [3, 1, 2])\<rparr>)
   \<and> (\<exists>path. getIntervalRectPath barPoints None scaleCoord
          (Some \<lparr>style_radius = Some (RArr [3, 1, 2])\<rparr>) = Inr path)
   \<and> wf_nextPoints (Some barPoints)
   \<and> (\<exists>path. getFunnelPath barPoints (Some barPoints) False = Inr path)"
proof -
  have wf: "wf_RadiusSpec (RArr [3, 1, 2])"
    "wf_ShapePoint \<lparr>sp_x = Scalar 5, sp_y = Scalar 10, sp_y0 = Some 0, sp_size = Some 2\<rparr>"
    "wf_Style (Some \<lparr>style_radius = Some (RArr [3, 1, 2])\<rparr>)"
    "wf_nextPoints (Some barPoints)" "length barPoints = 4" "barPoints \<noteq> []"
    by (simp_all add: wf_RadiusSpec_def wf_ShapePoint_def wf_Style_def wf_nextPoints_def
        opt_radius_def barPoints_def)
  have radii: "parseRadius (RArr [3, 1, 2]) = [Some 3, Some 1, Some 2, Some 1]"
    by (simp add: parseRadius_def js_nth_def)
  have outline:
    "getRectPoints \<lparr>sp_x = Scalar 5, sp_y = Scalar 10, sp_y0 = Some 0, sp_size = Some 2\<rparr> None
       = Inr barPoints"
    by (simp add: getRectPoints_def lift2_def mk_point_def default_arg_def barPoints_def)
  from wf radii outline show ?thesis
    using total_on_well_formed_input [of "RArr [3, 1, 2]"
        "\<lparr>sp_x = Scalar 5, sp_y = Scalar 10, sp_y0 = Some 0, sp_size = Some 2\<rparr>" None
        barPoints None "Some \<lparr>style_radius = Some (RArr [3, 1, 2])\<rparr>" None scaleCoord
        "Some barPoints" False]
    by simp
qed

end
